theory Spec2Isabelle
  imports Complex_Main
begin

section \<open>Python values\<close>

text \<open>
  A Python float is an IEEE 754 binary64 value. A finite value is kept as mantissa and
  exponent, \<open>Finite m e\<close> standing for \<open>m * 2 ^ e\<close>, in the canonical form the format
  itself has: \<open>- 1074 \<le> e \<le> 971\<close> and \<open>\<bar>m\<bar> < 2 ^ 53\<close>, with \<open>2 ^ 52 \<le> \<bar>m\<bar>\<close> unless
  \<open>e = - 1074\<close>. The sign of zero is not kept: no operation of the program tells
  \<open>-0.0\<close> from \<open>0.0\<close>.
\<close>

datatype pyfloat = Finite int int | PosInf | NegInf | NaN

datatype pyerror =
  ValueError | TypeError | OverflowError | AttributeError | ZeroDivisionError | RuntimeError

text \<open>The values a decoded JSON document is made of; a dict keeps its items in order.\<close>

datatype pyval =
  PyNone
  | PyBool bool
  | PyInt int
  | PyFloat pyfloat
  | PyStr string
  | PyList "pyval list"
  | PyDict "(string \<times> pyval) list"

text \<open>
  An f-string is kept as its parts, the literal text and the interpolated values, in
  order: \<open>f"Chain {chain_id} is not active"\<close> is
  \<open>[Lit ''Chain '', Val chain_id, Lit '' is not active'']\<close>.
\<close>

datatype fpart = Lit string | Val pyval | Exc pyerror

datatype log_level = DEBUG | INFO | WARNING | ERROR

text \<open>A log record: the logger's name, the level and the message.\<close>

type_synonym log_record = "string \<times> log_level \<times> fpart list"

section \<open>Floating-point arithmetic\<close>

text \<open>\<open>int.bit_length()\<close>: the number of binary digits of \<open>\<bar>n\<bar>\<close>.\<close>

fun bit_length_from :: "int \<Rightarrow> nat \<Rightarrow> int" where
  "bit_length_from acc n = (if n = 0 then acc else bit_length_from (acc + 1) (n div 2))"

declare bit_length_from.simps [simp del]

definition bit_length :: "int \<Rightarrow> int" where
  "bit_length n = bit_length_from 0 (nat \<bar>n\<bar>)"

text \<open>The integer part of the binary logarithm of \<open>n / d\<close>, for positive \<open>n\<close> and \<open>d\<close>.\<close>

definition floor_log2 :: "int \<Rightarrow> int \<Rightarrow> int" where
  "floor_log2 n d =
     (let k = bit_length n - bit_length d
      in if (if 0 \<le> k then d * 2 ^ nat k \<le> n else d \<le> n * 2 ^ nat (- k)) then k
         else k - 1)"

text \<open>The integer nearest to \<open>a / b\<close> for positive \<open>b\<close>, a tie going to the even one.\<close>

definition round_half_even :: "int \<Rightarrow> int \<Rightarrow> int" where
  "round_half_even a b =
     (let f = a div b; r = a mod b
      in if 2 * r < b then f
         else if b < 2 * r then f + 1
         else if even f then f else f + 1)"

text \<open>
  The exponent of the unit in the last place of the binary64 values around \<open>n / d\<close>:
  53 significant bits, and the fixed exponent \<open>- 1074\<close> in the subnormal range.
\<close>

definition ulp_exponent :: "int \<Rightarrow> int \<Rightarrow> int" where
  "ulp_exponent n d = max (floor_log2 \<bar>n\<bar> d) (- 1022) - 52"

text \<open>\<open>n / d\<close> in units of \<open>2 ^ e\<close>, rounded to an integer.\<close>

definition scaled_round :: "int \<Rightarrow> int \<Rightarrow> int \<Rightarrow> int" where
  "scaled_round n d e =
     (if 0 \<le> e then round_half_even n (d * 2 ^ nat e)
      else round_half_even (n * 2 ^ nat (- e)) d)"

text \<open>
  The value \<open>m * 2 ^ e\<close> as a float: a mantissa that rounding has carried to \<open>2 ^ 53\<close>
  moves to the next exponent, and an exponent above 971 is an overflow to infinity.
\<close>

definition pack_double :: "int \<Rightarrow> int \<Rightarrow> pyfloat" where
  "pack_double m e =
     (if \<bar>m\<bar> = 2 ^ 53 then
        (if 971 < e + 1 then (if 0 < m then PosInf else NegInf) else Finite (m div 2) (e + 1))
      else if 971 < e then (if 0 < m then PosInf else NegInf)
      else Finite m e)"

definition round_at :: "int \<Rightarrow> int \<Rightarrow> int \<Rightarrow> pyfloat" where
  "round_at n d e = pack_double (scaled_round n d e) e"

text \<open>
  The binary64 value nearest to the rational \<open>n / d\<close> (\<open>0 < d\<close>), ties to even: the
  rounding of IEEE 754 that float literals, \<open>float()\<close> and the arithmetic operators use.
\<close>

definition round_ratio :: "int \<Rightarrow> int \<Rightarrow> pyfloat" where
  "round_ratio n d = (if n = 0 then Finite 0 (- 1074) else round_at n d (ulp_exponent n d))"

text \<open>The value \<open>m * 2 ^ e\<close>, rounded.\<close>

definition round_dyadic :: "int \<Rightarrow> int \<Rightarrow> pyfloat" where
  "round_dyadic m e =
     (if 0 \<le> e then round_ratio (m * 2 ^ nat e) 1 else round_ratio m (2 ^ nat (- e)))"

text \<open>
  \<open>float(n)\<close> for an int: the nearest float, and OverflowError ("int too large to
  convert to float") from \<open>2 ^ 1024 - 2 ^ 970\<close> on, where the nearest value would be
  infinite.
\<close>

definition float_of_int :: "int \<Rightarrow> pyerror + pyfloat" where
  "float_of_int n =
     (if 2 ^ 1024 - 2 ^ 970 \<le> \<bar>n\<bar> then Inl OverflowError else Inr (round_ratio n 1))"

text \<open>\<open>x * y\<close> on floats.\<close>

fun fmul :: "pyfloat \<Rightarrow> pyfloat \<Rightarrow> pyfloat" where
  "fmul NaN y = NaN"
| "fmul x NaN = NaN"
| "fmul (Finite m1 e1) (Finite m2 e2) = round_dyadic (m1 * m2) (e1 + e2)"
| "fmul (Finite m e) PosInf = (if m = 0 then NaN else if 0 < m then PosInf else NegInf)"
| "fmul (Finite m e) NegInf = (if m = 0 then NaN else if 0 < m then NegInf else PosInf)"
| "fmul PosInf (Finite m e) = (if m = 0 then NaN else if 0 < m then PosInf else NegInf)"
| "fmul NegInf (Finite m e) = (if m = 0 then NaN else if 0 < m then NegInf else PosInf)"
| "fmul PosInf PosInf = PosInf"
| "fmul PosInf NegInf = NegInf"
| "fmul NegInf PosInf = NegInf"
| "fmul NegInf NegInf = PosInf"

text \<open>\<open>x / y\<close> on floats; a zero divisor raises ZeroDivisionError.\<close>

fun fdiv :: "pyfloat \<Rightarrow> pyfloat \<Rightarrow> pyerror + pyfloat" where
  "fdiv x (Finite m2 e2) =
     (if m2 = 0 then Inl ZeroDivisionError
      else case x of
        Finite m1 e1 \<Rightarrow>
          Inr (if 0 < m2 then
                 (if e2 \<le> e1 then round_ratio (m1 * 2 ^ nat (e1 - e2)) m2
                  else round_ratio m1 (m2 * 2 ^ nat (e2 - e1)))
               else
                 (if e2 \<le> e1 then round_ratio (- m1 * 2 ^ nat (e1 - e2)) (- m2)
                  else round_ratio (- m1) (- m2 * 2 ^ nat (e2 - e1))))
      | PosInf \<Rightarrow> Inr (if 0 < m2 then PosInf else NegInf)
      | NegInf \<Rightarrow> Inr (if 0 < m2 then NegInf else PosInf)
      | NaN \<Rightarrow> Inr NaN)"
| "fdiv NaN y = Inr NaN"
| "fdiv x NaN = Inr NaN"
| "fdiv (Finite m e) y = Inr (Finite 0 (- 1074))"
| "fdiv x y = Inr NaN"

text \<open>\<open>x <= y\<close> and \<open>x > y\<close> on floats: every comparison with NaN is false.\<close>

fun fle :: "pyfloat \<Rightarrow> pyfloat \<Rightarrow> bool" where
  "fle NaN y = False"
| "fle x NaN = False"
| "fle (Finite m1 e1) (Finite m2 e2) =
     (m1 * 2 ^ nat (e1 - min e1 e2) \<le> m2 * 2 ^ nat (e2 - min e1 e2))"
| "fle NegInf y = True"
| "fle x PosInf = True"
| "fle x y = False"

fun fgt :: "pyfloat \<Rightarrow> pyfloat \<Rightarrow> bool" where
  "fgt NaN y = False"
| "fgt x NaN = False"
| "fgt (Finite m1 e1) (Finite m2 e2) =
     (m2 * 2 ^ nat (e2 - min e1 e2) < m1 * 2 ^ nat (e1 - min e1 e2))"
| "fgt NegInf y = False"
| "fgt x PosInf = False"
| "fgt x y = True"

text \<open>\<open>n / y\<close> for an int \<open>n\<close> and a float \<open>y\<close>: the int is converted first.\<close>

definition int_truediv_float :: "int \<Rightarrow> pyfloat \<Rightarrow> pyerror + pyfloat" where
  "int_truediv_float n y = (case float_of_int n of Inl e \<Rightarrow> Inl e | Inr x \<Rightarrow> fdiv x y)"

text \<open>
  The float literal with decimal digits \<open>n\<close> and \<open>k\<close> digits after the point:
  \<open>0.005\<close> is \<open>float_literal 5 3\<close>.
\<close>

definition float_literal :: "int \<Rightarrow> nat \<Rightarrow> pyfloat" where
  "float_literal n k = round_ratio n (10 ^ k)"

section \<open>Built-in operations on values\<close>

text \<open>\<open>bool(v)\<close>, the truth value an \<open>if\<close> takes of \<open>v\<close>.\<close>

fun py_truthy :: "pyval \<Rightarrow> bool" where
  "py_truthy PyNone = False"
| "py_truthy (PyBool b) = b"
| "py_truthy (PyInt n) = (n \<noteq> 0)"
| "py_truthy (PyFloat x) = (case x of Finite m e \<Rightarrow> m \<noteq> 0 | _ \<Rightarrow> True)"
| "py_truthy (PyStr s) = (s \<noteq> [])"
| "py_truthy (PyList xs) = (xs \<noteq> [])"
| "py_truthy (PyDict d) = (d \<noteq> [])"

text \<open>\<open>d.get(k)\<close>: the value at \<open>k\<close>, and \<open>None\<close> for a missing key.\<close>

definition py_get :: "(string \<times> pyval) list \<Rightarrow> string \<Rightarrow> pyval" where
  "py_get d k = (case map_of d k of None \<Rightarrow> PyNone | Some v \<Rightarrow> v)"

subsection \<open>\<open>float()\<close> of a string\<close>

text \<open>
  Characters are code points below 256. White space is what \<open>str.isspace\<close> accepts
  there; the decimal digits are \<open>0\<close> to \<open>9\<close>.
\<close>

definition is_space :: "char \<Rightarrow> bool" where
  "is_space c \<longleftrightarrow> (of_char c :: nat) \<in> set [9, 10, 11, 12, 13, 28, 29, 30, 31, 32, 133, 160]"

definition is_digit :: "char \<Rightarrow> bool" where
  "is_digit c \<longleftrightarrow> c \<in> set ''0123456789''"

definition digits_value :: "string \<Rightarrow> int" where
  "digits_value ds = foldl (\<lambda>a c. 10 * a + (of_char c - 48)) 0 ds"

definition strip :: "string \<Rightarrow> string" where
  "strip s = rev (dropWhile is_space (rev (dropWhile is_space s)))"

text \<open>
  An underscore is allowed between two digits only; the underscores are dropped before
  the number is read. \<open>prev\<close> is the character before the rest \<open>s\<close>.
\<close>

fun remove_underscores :: "char \<Rightarrow> string \<Rightarrow> string option" where
  "remove_underscores prev [] = Some []"
| "remove_underscores prev (c # cs) =
     (if c = CHR ''_'' then
        (if is_digit prev \<and> (case cs of [] \<Rightarrow> False | d # ds \<Rightarrow> is_digit d)
         then remove_underscores c cs else None)
      else map_option ((#) c) (remove_underscores c cs))"

text \<open>An optional sign: whether it is a minus, and the rest.\<close>

fun split_sign :: "string \<Rightarrow> bool \<times> string" where
  "split_sign [] = (False, [])"
| "split_sign (c # cs) =
     (if c = CHR ''-'' then (True, cs) else if c = CHR ''+'' then (False, cs) else (False, c # cs))"

text \<open>The exponent part, which must be all that is left: \<open>e\<close> or \<open>E\<close>, a sign, digits.\<close>

fun parse_exponent :: "string \<Rightarrow> int option" where
  "parse_exponent [] = Some 0"
| "parse_exponent (c # cs) =
     (if c = CHR ''e'' \<or> c = CHR ''E'' then
        (case split_sign cs of
           (neg, ds) \<Rightarrow>
             if ds \<noteq> [] \<and> list_all is_digit ds
             then Some (if neg then - digits_value ds else digits_value ds)
             else None)
      else None)"

text \<open>
  An unsigned decimal number \<open>[digits][.digits][exponent]\<close> with a digit before or
  after the point: its digits as an integer and its power of ten.
\<close>

definition parse_decimal :: "string \<Rightarrow> (int \<times> int) option" where
  "parse_decimal s =
     (let ip = takeWhile is_digit s;
          r1 = dropWhile is_digit s;
          fp = (case r1 of [] \<Rightarrow> [] | c # cs \<Rightarrow> if c = CHR ''.'' then takeWhile is_digit cs else []);
          r2 = (case r1 of [] \<Rightarrow> [] | c # cs \<Rightarrow> if c = CHR ''.'' then dropWhile is_digit cs else r1)
      in if ip = [] \<and> fp = [] then None
         else (case parse_exponent r2 of
                 None \<Rightarrow> None
               | Some e \<Rightarrow> Some (digits_value (ip @ fp), e - int (length fp))))"

text \<open>\<open>n * 10 ^ p\<close> as a float.\<close>

definition decimal_to_float :: "int \<Rightarrow> int \<Rightarrow> pyfloat" where
  "decimal_to_float n p =
     (if 0 \<le> p then round_ratio (n * 10 ^ nat p) 1 else round_ratio n (10 ^ nat (- p)))"

definition lower :: "char \<Rightarrow> char" where
  "lower c =
     (case map_of (zip ''ABCDEFGHIJKLMNOPQRSTUVWXYZ'' ''abcdefghijklmnopqrstuvwxyz'') c of
        None \<Rightarrow> c | Some l \<Rightarrow> l)"

text \<open>
  \<open>float(s)\<close> for a string: white space around the number is dropped; \<open>inf\<close>,
  \<open>infinity\<close> and \<open>nan\<close> are read in any case, with an optional sign; anything else
  that is not a decimal number raises ValueError.
\<close>

definition float_of_str :: "string \<Rightarrow> pyerror + pyfloat" where
  "float_of_str s =
     (case remove_underscores (CHR 0x00) (strip s) of
        None \<Rightarrow> Inl ValueError
      | Some t \<Rightarrow>
          (case split_sign t of
             (neg, u) \<Rightarrow>
               if map lower u = ''inf'' \<or> map lower u = ''infinity''
               then Inr (if neg then NegInf else PosInf)
               else if map lower u = ''nan'' then Inr NaN
               else (case parse_decimal u of
                       None \<Rightarrow> Inl ValueError
                     | Some (n, p) \<Rightarrow> Inr (decimal_to_float (if neg then - n else n) p))))"

text \<open>\<open>float(v)\<close>.\<close>

fun py_float :: "pyval \<Rightarrow> pyerror + pyfloat" where
  "py_float PyNone = Inl TypeError"
| "py_float (PyBool b) = Inr (round_ratio (if b then 1 else 0) 1)"
| "py_float (PyInt n) = float_of_int n"
| "py_float (PyFloat x) = Inr x"
| "py_float (PyStr s) = float_of_str s"
| "py_float (PyList xs) = Inl TypeError"
| "py_float (PyDict d) = Inl TypeError"

section \<open>transaction_core.py\<close>

text \<open>The dictionary \<open>simulate_transaction\<close> returns, by its keys.\<close>

record sim_result =
  success :: bool
  gas_used :: int
  gas_price_gwei :: int
  estimated_cost_eth :: pyfloat
  estimated_profit_eth :: pyfloat

text \<open>The same dictionary as a value, as it is interpolated into log messages.\<close>

definition sim_dict :: "sim_result \<Rightarrow> pyval" where
  "sim_dict r =
     PyDict [(''success'', PyBool (success r)),
             (''gas_used'', PyInt (gas_used r)),
             (''gas_price_gwei'', PyInt (gas_price_gwei r)),
             (''estimated_cost_eth'', PyFloat (estimated_cost_eth r)),
             (''estimated_profit_eth'', PyFloat (estimated_profit_eth r))]"

text \<open>
  Lines 47 to 54: the profit is \<open>0.005\<close> unless \<open>opportunity.get("amount")\<close> is truthy
  and \<open>float()\<close> converts it; of the exceptions of \<open>float()\<close> only ValueError and
  TypeError are caught.
\<close>

definition estimated_profit :: "(string \<times> pyval) list \<Rightarrow> pyerror + pyfloat" where
  "estimated_profit opportunity =
     (if py_truthy (py_get opportunity ''amount'') then
        (case py_float (py_get opportunity ''amount'') of
           Inr amount \<Rightarrow> Inr (fmul amount (float_literal 1 2))
         | Inl ValueError \<Rightarrow> Inr (float_literal 5 3)
         | Inl TypeError \<Rightarrow> Inr (float_literal 5 3)
         | Inl e \<Rightarrow> Inl e)
      else Inr (float_literal 5 3))"

text \<open>
  \<open>simulate_transaction(chain_id, opportunity)\<close>: the records it logs, and the
  dictionary it returns or the exception it raises. \<open>opportunity.get\<close> raises
  AttributeError on a value that is not a dictionary.
\<close>

definition simulate_transaction ::
    "string \<Rightarrow> pyval \<Rightarrow> log_record list \<times> (pyerror + sim_result)" where
  "simulate_transaction chain_id opportunity =
     ([(''TransactionCore'', INFO, [Lit ''Simulating transaction on chain '', Val (PyStr chain_id)]),
       (''TransactionCore'', DEBUG, [Lit ''Opportunity: '', Val opportunity])],
      case opportunity of
        PyDict d \<Rightarrow>
          (case int_truediv_float
                  ((if py_truthy (py_get d ''token'') then 100000 + 50000 else 100000) *
                   (if chain_id = ''137'' then 50 else 20))
                  (float_literal 1000000000 0) of
             Inl e \<Rightarrow> Inl e
           | Inr cost \<Rightarrow>
               (case estimated_profit d of
                  Inl e \<Rightarrow> Inl e
                | Inr profit \<Rightarrow>
                    Inr \<lparr>success = True,
                         gas_used = (if py_truthy (py_get d ''token'') then 100000 + 50000
                                     else 100000),
                         gas_price_gwei = (if chain_id = ''137'' then 50 else 20),
                         estimated_cost_eth = cost,
                         estimated_profit_eth = profit\<rparr>))
      | _ \<Rightarrow> Inl AttributeError)"

text \<open>
  The two dictionaries \<open>execute_transaction\<close> returns:
  \<open>{"success": False, "error": e, "details": d}\<close> is \<open>Failed e d\<close>, and
  \<open>{"success": True, "transaction_hash": h, "gas_used": g, "gas_price_gwei": p,
  "cost_eth": c, "profit_eth": q}\<close> is \<open>Executed h g p c q\<close>.
\<close>

datatype exec_result =
  Failed string sim_result
  | Executed string int int pyfloat pyfloat

fun result_success :: "exec_result \<Rightarrow> bool" where
  "result_success (Failed e d) = False"
| "result_success (Executed h g p c q) = True"

fun result_error :: "exec_result \<Rightarrow> string option" where
  "result_error (Failed e d) = Some e"
| "result_error (Executed h g p c q) = None"

fun result_details :: "exec_result \<Rightarrow> sim_result option" where
  "result_details (Failed e d) = Some d"
| "result_details (Executed h g p c q) = None"

text \<open>
  Lines 85 to 113 of \<open>execute_transaction\<close>, what it does with the simulation result:
  the two checks, and the execution step, which builds the \<open>Executed\<close> dictionary.
\<close>

definition execute_simulated :: "sim_result \<Rightarrow> log_record list \<times> exec_result" where
  "execute_simulated sim_result =
     (if \<not> success sim_result then
        ([(''TransactionCore'', ERROR, [Lit ''Simulation failed: '', Val (sim_dict sim_result)])],
         Failed ''Simulation failed'' sim_result)
      else if fle (estimated_profit_eth sim_result) (estimated_cost_eth sim_result) then
        ([(''TransactionCore'', WARNING,
           [Lit ''Profit ('', Val (PyFloat (estimated_profit_eth sim_result)),
            Lit '' ETH) is less than or equal to cost ('',
            Val (PyFloat (estimated_cost_eth sim_result)), Lit '' ETH)''])],
         Failed ''Profit is less than or equal to cost'' sim_result)
      else
        ([],
         Executed ''0x1234567890abcdef1234567890abcdef1234567890abcdef1234567890abcdef''
           (gas_used sim_result) (gas_price_gwei sim_result)
           (estimated_cost_eth sim_result) (estimated_profit_eth sim_result)))"

definition execute_transaction ::
    "string \<Rightarrow> pyval \<Rightarrow> log_record list \<times> (pyerror + exec_result)" where
  "execute_transaction chain_id opportunity =
     (case simulate_transaction chain_id opportunity of
        (recs, Inl e) \<Rightarrow>
          ([(''TransactionCore'', INFO, [Lit ''Executing transaction on chain '', Val (PyStr chain_id)]),
            (''TransactionCore'', DEBUG, [Lit ''Opportunity: '', Val opportunity])] @ recs,
           Inl e)
      | (recs, Inr sim_result) \<Rightarrow>
          ([(''TransactionCore'', INFO, [Lit ''Executing transaction on chain '', Val (PyStr chain_id)]),
            (''TransactionCore'', DEBUG, [Lit ''Opportunity: '', Val opportunity])] @ recs @
           fst (execute_simulated sim_result),
           Inr (snd (execute_simulated sim_result))))"

text \<open>What a run returned, if it returned.\<close>

definition returned :: "'l \<times> (pyerror + 'a) \<Rightarrow> 'a option" where
  "returned r = (case snd r of Inl e \<Rightarrow> None | Inr v \<Rightarrow> Some v)"

text \<open>The exception a run raised, if it raised.\<close>

definition raised :: "'l \<times> (pyerror + 'a) \<Rightarrow> pyerror option" where
  "raised r = (case snd r of Inl e \<Rightarrow> Some e | Inr v \<Rightarrow> None)"

section \<open>app_multi_chain.py: the lifecycle endpoints\<close>

text \<open>
  Modelled from the spec: \<open>MultiChainCore\<close> (python/multi_chain_core.py) is not part of
  the sources. Of the core only \<open>workers\<close> is read, the mapping whose keys are the active
  chain IDs (the spec's ChainWorkerRegistry: \<open>listActive() -> set<ChainID>\<close>).
\<close>

record multi_chain_core =
  workers :: "string set"

text \<open>A coroutine handed to the event loop; \<open>Stop_core\<close> captures \<open>bot_task\<close>.\<close>

datatype coroutine = Run_core | Stop_core "nat option"

text \<open>
  \<open>app.config\<close> with the keys the endpoints use, together with the event loop of the
  calling thread: \<open>loop_tasks\<close> are the tasks created on it so far, and \<open>loop_error\<close> is
  \<open>Some msg\<close> when \<open>asyncio.get_event_loop()\<close> raises a RuntimeError with text \<open>msg\<close>.
\<close>

record app_config =
  core :: "multi_chain_core option"
  bot_status :: string
  bot_task :: "nat option"
  loop_tasks :: "coroutine list"
  loop_error :: "string option"

text \<open>\<open>jsonify({"status": ..., "message": ...}), code\<close>\<close>

record response =
  status_code :: nat
  status :: string
  message :: "fpart list"

definition start_bot :: "app_config \<Rightarrow> app_config \<times> log_record list \<times> response" where
  "start_bot app =
     (if bot_status app = ''running'' then
        (app, [],
         \<lparr>status_code = 400, status = ''error'', message = [Lit ''Bot is already running'']\<rparr>)
      else if core app = None then
        (app, [],
         \<lparr>status_code = 500, status = ''error'', message = [Lit ''Core not initialized'']\<rparr>)
      else
        (case loop_error app of
           Some msg \<Rightarrow>
             (app\<lparr>bot_status := ''error''\<rparr>,
              [(''App'', INFO, [Lit ''Starting bot...'']),
               (''App'', ERROR, [Lit ''Error starting bot: '', Lit msg])],
              \<lparr>status_code = 500, status = ''error'',
               message = [Lit ''Error starting bot: '', Lit msg]\<rparr>)
         | None \<Rightarrow>
             (app\<lparr>bot_status := ''starting'',
                  bot_task := Some (length (loop_tasks app)),
                  loop_tasks := loop_tasks app @ [Run_core]\<rparr>,
              [(''App'', INFO, [Lit ''Starting bot...''])],
              \<lparr>status_code = 200, status = ''success'', message = [Lit ''Bot started'']\<rparr>)))"

definition stop_bot :: "app_config \<Rightarrow> app_config \<times> log_record list \<times> response" where
  "stop_bot app =
     (if bot_status app \<noteq> ''running'' then
        (app, [],
         \<lparr>status_code = 400, status = ''error'',
          message = [Lit ''Bot is not running (status: '', Val (PyStr (bot_status app)),
                     Lit '')'']\<rparr>)
      else if core app = None then
        (app, [],
         \<lparr>status_code = 500, status = ''error'', message = [Lit ''Core not initialized'']\<rparr>)
      else
        (case loop_error app of
           Some msg \<Rightarrow>
             (app\<lparr>bot_status := ''stopping''\<rparr>,
              [(''App'', INFO, [Lit ''Stopping bot...'']),
               (''App'', ERROR, [Lit ''Error stopping bot: '', Lit msg])],
              \<lparr>status_code = 500, status = ''error'',
               message = [Lit ''Error stopping bot: '', Lit msg]\<rparr>)
         | None \<Rightarrow>
             (app\<lparr>bot_status := ''stopping'',
                  loop_tasks := loop_tasks app @ [Stop_core (bot_task app)]\<rparr>,
              [(''App'', INFO, [Lit ''Stopping bot...''])],
              \<lparr>status_code = 200, status = ''success'', message = [Lit ''Bot stopping'']\<rparr>)))"

text \<open>The two rejections of the lifecycle calls.\<close>

definition already_running :: response where
  "already_running =
     \<lparr>status_code = 400, status = ''error'', message = [Lit ''Bot is already running'']\<rparr>"

definition not_running :: "string \<Rightarrow> response" where
  "not_running s =
     \<lparr>status_code = 400, status = ''error'',
      message = [Lit ''Bot is not running (status: '', Val (PyStr s), Lit '')'']\<rparr>"

text \<open>The answer of an accepted \<open>start_bot\<close>.\<close>

definition bot_started :: response where
  "bot_started = \<lparr>status_code = 200, status = ''success'', message = [Lit ''Bot started'']\<rparr>"

text \<open>An application whose core is initialised with chain 1 active, in a given state.\<close>

definition app_in :: "string \<Rightarrow> app_config" where
  "app_in s =
     \<lparr>core = Some \<lparr>workers = {''1''}\<rparr>, bot_status = s, bot_task = None,
      loop_tasks = [], loop_error = None\<rparr>"

text \<open>Two simulation results: a failed one, and the break-even one of chain 137.\<close>

definition failed_simulation :: sim_result where
  "failed_simulation =
     \<lparr>success = False, gas_used = 100000, gas_price_gwei = 20,
      estimated_cost_eth = float_literal 2 3, estimated_profit_eth = float_literal 5 3\<rparr>"

definition break_even :: sim_result where
  "break_even =
     \<lparr>success = True, gas_used = 100000, gas_price_gwei = 50,
      estimated_cost_eth = float_literal 5 3, estimated_profit_eth = float_literal 5 3\<rparr>"

text \<open>The profit of a run, if it returned.\<close>

definition profit_of :: "log_record list \<times> (pyerror + sim_result) \<Rightarrow> pyfloat option" where
  "profit_of r = map_option estimated_profit_eth (returned r)"

text \<open>A dictionary without the key \<open>k\<close>.\<close>

definition without_key :: "string \<Rightarrow> (string \<times> pyval) list \<Rightarrow> (string \<times> pyval) list" where
  "without_key k d = filter (\<lambda>kv. fst kv \<noteq> k) d"

section \<open>app_multi_chain.py: the simulation endpoint\<close>










section \<open>Evaluation rules\<close>

text \<open>The definitions a concrete run is computed with.\<close>

lemmas float_eval = round_ratio_def round_at_def pack_double_def scaled_round_def ulp_exponent_def
  floor_log2_def bit_length_def bit_length_from.simps round_half_even_def round_dyadic_def
  float_of_int_def int_truediv_float_def float_literal_def Let_def

lemmas parse_eval = float_of_str_def strip_def is_space_def is_digit_def digits_value_def
  parse_decimal_def decimal_to_float_def lower_def

lemmas tx_eval = simulate_transaction_def estimated_profit_def py_get_def execute_transaction_def
  execute_simulated_def returned_def raised_def

section \<open>Properties of the lifecycle endpoints\<close>

text \<open>
  C4. A rejected lifecycle call never changes the bot state: \<open>start_bot\<close> called while the
  state is running returns the already-running error, and \<open>stop_bot\<close> called in any state
  other than running returns the not-running error; in both cases the application state
  is returned as it was, nothing is logged and no task is created.
\<close>

theorem rejected_call_keeps_state:
  "(bot_status app = ''running'' \<longrightarrow> start_bot app = (app, [], already_running)) \<and>
   (bot_status app \<noteq> ''running'' \<longrightarrow> stop_bot app = (app, [], not_running (bot_status app)))"
  by (simp add: start_bot_def stop_bot_def already_running_def not_running_def)

theorem rejected_call_keeps_state_witness:
  "bot_status (app_in ''running'') = ''running'' \<and>
   start_bot (app_in ''running'') = (app_in ''running'', [], already_running) \<and>
   bot_status (app_in ''stopped'') \<noteq> ''running'' \<and>
   stop_bot (app_in ''stopped'') = (app_in ''stopped'', [], not_running ''stopped'')"
  using rejected_call_keeps_state [of "app_in ''running''"]
    rejected_call_keeps_state [of "app_in ''stopped''"]
  by (simp add: app_in_def)

text \<open>
  C3. \<open>start_bot\<close> is to be rejected with the already-running error in the states
  running and starting. The code tests for running only: a second \<open>start_bot\<close>, called
  right after a first one on a stopped bot and before the event loop has run the task, finds
  the state starting, is accepted, creates a second \<open>run_core\<close> task and overwrites the one
  task handle, so that the first control loop can no longer be cancelled.
\<close>

theorem start_while_starting_accepted:
  "bot_status (fst (start_bot (app_in ''stopped''))) = ''starting'' \<and>
   snd (snd (start_bot (fst (start_bot (app_in ''stopped''))))) \<noteq> already_running \<and>
   snd (snd (start_bot (fst (start_bot (app_in ''stopped''))))) = bot_started \<and>
   loop_tasks (fst (start_bot (fst (start_bot (app_in ''stopped''))))) = [Run_core, Run_core] \<and>
   bot_task (fst (start_bot (fst (start_bot (app_in ''stopped''))))) = Some 1"
  by (simp add: start_bot_def app_in_def already_running_def bot_started_def)

section \<open>Properties of transaction_core.py\<close>

text \<open>
  C2. \<open>simulate_transaction("1", {"token": "0xabc", "amount": "1.0"})\<close> returns success,
  150000 gas (100000 and the surcharge of 50000 for the token), a gas price of 20, a cost
  of \<open>0.003\<close> and a profit of \<open>0.01\<close>; the profit exceeds the cost, and
  \<open>execute_transaction\<close> accepts the result and executes it.
\<close>

theorem scenario_a:
  "returned (simulate_transaction ''1''
       (PyDict [(''token'', PyStr ''0xabc''), (''amount'', PyStr ''1.0'')])) =
     Some \<lparr>success = True, gas_used = 150000, gas_price_gwei = 20,
           estimated_cost_eth = float_literal 3 3, estimated_profit_eth = float_literal 1 2\<rparr> \<and>
   fgt (float_literal 1 2) (float_literal 3 3) \<and>
   returned (execute_transaction ''1''
       (PyDict [(''token'', PyStr ''0xabc''), (''amount'', PyStr ''1.0'')])) =
     Some (Executed ''0x1234567890abcdef1234567890abcdef1234567890abcdef1234567890abcdef''
             150000 20 (float_literal 3 3) (float_literal 1 2))"
  by (simp add: tx_eval parse_eval float_eval)

text \<open>
  C8. \<open>simulate_transaction\<close> is to return on every dictionary, an amount that
  \<open>float()\<close> cannot convert counting as absent. The \<open>except\<close> clause names ValueError
  and TypeError only: on the int \<open>2 ** 1024\<close>, too large for a float, \<open>float()\<close> raises
  OverflowError, and the call raises it instead of returning.
\<close>

theorem huge_int_amount_raises:
  "py_truthy (PyInt (2 ^ 1024)) \<and>
   py_float (PyInt (2 ^ 1024)) = Inl OverflowError \<and>
   raised (simulate_transaction ''1'' (PyDict [(''amount'', PyInt (2 ^ 1024))])) =
     Some OverflowError \<and>
   returned (simulate_transaction ''1'' (PyDict [(''amount'', PyInt (2 ^ 1024))])) = None"
  by (simp add: tx_eval parse_eval float_eval)

text \<open>
  C1. The gate is to accept only a profit strictly greater than the cost. The code rejects
  when \<open>profit <= cost\<close> and executes otherwise: with the amount \<open>"nan"\<close> the profit is
  NaN, which is neither less than or equal to the cost nor greater than it, and the
  transaction is executed.
\<close>

theorem nan_amount_is_executed:
  "returned (simulate_transaction ''1'' (PyDict [(''amount'', PyStr ''nan'')])) =
     Some \<lparr>success = True, gas_used = 100000, gas_price_gwei = 20,
           estimated_cost_eth = float_literal 2 3, estimated_profit_eth = NaN\<rparr> \<and>
   \<not> fgt NaN (float_literal 2 3) \<and>
   returned (execute_transaction ''1'' (PyDict [(''amount'', PyStr ''nan'')])) =
     Some (Executed ''0x1234567890abcdef1234567890abcdef1234567890abcdef1234567890abcdef''
             100000 20 (float_literal 2 3) NaN)"
  by (simp add: tx_eval parse_eval float_eval)

subsection \<open>What a simulation returns\<close>

lemma cost_value:
  "int_truediv_float ((if t then 100000 + 50000 else 100000) * (if p then 50 else 20))
     (float_literal 1000000000 0) =
   Inr (if t then (if p then float_literal 75 4 else float_literal 3 3)
        else (if p then float_literal 5 3 else float_literal 2 3))"
  by (cases t; cases p) (simp_all add: float_eval)

lemma simulate_dict:
  "snd (simulate_transaction chain_id (PyDict d)) =
     (case estimated_profit d of
        Inl e \<Rightarrow> Inl e
      | Inr profit \<Rightarrow>
          Inr \<lparr>success = True,
               gas_used = (if py_truthy (py_get d ''token'') then 100000 + 50000 else 100000),
               gas_price_gwei = (if chain_id = ''137'' then 50 else 20),
               estimated_cost_eth =
                 (if py_truthy (py_get d ''token'')
                  then (if chain_id = ''137'' then float_literal 75 4 else float_literal 3 3)
                  else (if chain_id = ''137'' then float_literal 5 3 else float_literal 2 3)),
               estimated_profit_eth = profit\<rparr>)"
  by (simp only: simulate_transaction_def cost_value snd_conv pyval.case sum.case)

lemma simulation_success_when_returned:
  assumes "returned (simulate_transaction chain_id opportunity) = Some r"
  shows "success r"
proof (cases opportunity)
  case (PyDict d)
  with assms show ?thesis
    by (auto simp add: returned_def simulate_dict split: sum.splits)
qed (use assms in \<open>simp_all add: returned_def simulate_transaction_def\<close>)

lemma never_simulation_failed:
  assumes "returned (execute_transaction chain_id opportunity) = Some r"
  shows "result_error r \<noteq> Some ''Simulation failed''"
proof -
  obtain recs out where sim: "simulate_transaction chain_id opportunity = (recs, out)"
    by (cases "simulate_transaction chain_id opportunity")
  show ?thesis
  proof (cases out)
    case (Inl e)
    with sim assms show ?thesis
      by (simp add: execute_transaction_def returned_def)
  next
    case (Inr s)
    with sim have "returned (simulate_transaction chain_id opportunity) = Some s"
      by (simp add: returned_def)
    then have "success s"
      by (rule simulation_success_when_returned)
    with sim Inr assms show ?thesis
      by (auto simp add: execute_transaction_def returned_def execute_simulated_def
          split: if_splits)
  qed
qed

text \<open>
  C9. \<open>simulate_transaction\<close> is to return a result with success true on every input,
  so that \<open>execute_transaction\<close> never answers "Simulation failed". Whenever it returns,
  success is true (\<open>simulation_success_when_returned\<close>, \<open>never_simulation_failed\<close>), but
  on an int amount too large for a float it returns nothing: OverflowError leaves
  \<open>simulate_transaction\<close> and \<open>execute_transaction\<close>.
\<close>

theorem huge_amount_no_result:
  "returned (simulate_transaction ''137''
       (PyDict [(''token'', PyStr ''0xabc''), (''amount'', PyInt (- (2 ^ 1024)))])) = None \<and>
   returned (execute_transaction ''137''
       (PyDict [(''token'', PyStr ''0xabc''), (''amount'', PyInt (- (2 ^ 1024)))])) = None \<and>
   raised (execute_transaction ''137''
       (PyDict [(''token'', PyStr ''0xabc''), (''amount'', PyInt (- (2 ^ 1024)))])) =
     Some OverflowError"
  by (simp add: tx_eval parse_eval float_eval)

subsection \<open>The estimated profit\<close>

text \<open>
  C6, as the code has it. The estimated profit is \<open>float(amount) * 0.01\<close> when
  \<open>opportunity.get("amount")\<close> is truthy and \<open>float()\<close> converts it, whatever the sign of
  the result; it is the default \<open>0.005\<close> when the amount is missing or falsy, or when
  \<open>float()\<close> raises ValueError or TypeError on it.
\<close>

theorem profit_rule:
  "(py_truthy (py_get d ''amount'') \<and> py_float (py_get d ''amount'') = Inr x \<longrightarrow>
      profit_of (simulate_transaction chain_id (PyDict d)) = Some (fmul x (float_literal 1 2))) \<and>
   (\<not> py_truthy (py_get d ''amount'') \<or> py_float (py_get d ''amount'') = Inl ValueError \<or>
    py_float (py_get d ''amount'') = Inl TypeError \<longrightarrow>
      profit_of (simulate_transaction chain_id (PyDict d)) = Some (float_literal 5 3))"
  by (auto simp add: profit_of_def returned_def simulate_dict estimated_profit_def)

theorem profit_rule_witness:
  "py_truthy (py_get [(''amount'', PyStr ''2.5'')] ''amount'') \<and>
   py_float (py_get [(''amount'', PyStr ''2.5'')] ''amount'') = Inr (round_ratio 5 2) \<and>
   profit_of (simulate_transaction ''1'' (PyDict [(''amount'', PyStr ''2.5'')])) =
     Some (fmul (round_ratio 5 2) (float_literal 1 2)) \<and>
   py_float (py_get [(''amount'', PyStr ''abc'')] ''amount'') = Inl ValueError \<and>
   profit_of (simulate_transaction ''1'' (PyDict [(''amount'', PyStr ''abc'')])) =
     Some (float_literal 5 3)"
proof -
  have a: "py_truthy (py_get [(''amount'', PyStr ''2.5'')] ''amount'')"
    by (simp add: py_get_def)
  have b: "py_float (py_get [(''amount'', PyStr ''2.5'')] ''amount'') = Inr (round_ratio 5 2)"
    by (simp add: py_get_def parse_eval float_eval)
  have c: "py_float (py_get [(''amount'', PyStr ''abc'')] ''amount'') = Inl ValueError"
    by (simp add: py_get_def parse_eval float_eval)
  show ?thesis
    using a b c
      profit_rule [of "[(''amount'', PyStr ''2.5'')]" "round_ratio 5 2" "''1''"]
      profit_rule [of "[(''amount'', PyStr ''abc'')]" x "''1''" for x]
    by blast
qed

text \<open>
  C6 as stated fails on a negative amount: \<open>"-1.0"\<close> parses to the negative number
  \<open>-1.0\<close>, and the profit is \<open>-0.01\<close>, not the default \<open>0.005\<close>.
\<close>

theorem negative_amount_counterexample:
  "float_of_str ''-1.0'' = Inr (Finite (- 4503599627370496) (- 52)) \<and>
   profit_of (simulate_transaction ''1'' (PyDict [(''amount'', PyStr ''-1.0'')])) =
     Some (Finite (- 5764607523034235) (- 59)) \<and>
   profit_of (simulate_transaction ''1'' (PyDict [(''amount'', PyStr ''-1.0'')])) \<noteq>
     Some (float_literal 5 3)"
  by (simp add: profit_of_def tx_eval parse_eval float_eval)

lemma py_get_without_key:
  "py_get (without_key k d) j = (if j = k then PyNone else py_get d j)"
  by (induction d) (auto simp add: without_key_def py_get_def)

text \<open>
  C10. An amount that is present but falsy, such as the number 0, the empty string or
  \<open>None\<close>, is treated as absent: the result is the one of the dictionary without the key,
  with the default profit \<open>0.005\<close>, although \<open>float(0)\<close> is the valid number \<open>0.0\<close>, which
  would give the profit \<open>0.0\<close>.
\<close>

theorem falsy_amount_is_absent:
  "(map_of d ''amount'' = Some v \<and> \<not> py_truthy v \<longrightarrow>
      profit_of (simulate_transaction chain_id (PyDict d)) = Some (float_literal 5 3) \<and>
      snd (simulate_transaction chain_id (PyDict d)) =
        snd (simulate_transaction chain_id (PyDict (without_key ''amount'' d)))) \<and>
   \<not> py_truthy (PyInt 0) \<and> \<not> py_truthy (PyStr []) \<and> \<not> py_truthy PyNone \<and>
   py_float (PyInt 0) = Inr (Finite 0 (- 1074)) \<and>
   fmul (Finite 0 (- 1074)) (float_literal 1 2) = Finite 0 (- 1074) \<and>
   Finite 0 (- 1074) \<noteq> float_literal 5 3"
proof -
  have "profit_of (simulate_transaction chain_id (PyDict d)) = Some (float_literal 5 3) \<and>
      snd (simulate_transaction chain_id (PyDict d)) =
        snd (simulate_transaction chain_id (PyDict (without_key ''amount'' d)))"
    if "map_of d ''amount'' = Some v" "\<not> py_truthy v"
  proof -
    from that have "\<not> py_truthy (py_get d ''amount'')"
      by (simp add: py_get_def)
    then show ?thesis
      by (simp add: profit_of_def returned_def simulate_dict estimated_profit_def
          py_get_without_key)
  qed
  moreover have "py_float (PyInt 0) = Inr (Finite 0 (- 1074))"
    by (simp add: float_eval)
  moreover have "fmul (Finite 0 (- 1074)) (float_literal 1 2) = Finite 0 (- 1074)"
    by (simp add: float_eval)
  moreover have "Finite 0 (- 1074) \<noteq> float_literal 5 3"
    by (simp add: float_eval)
  ultimately show ?thesis
    by simp
qed

theorem falsy_amount_is_absent_witness:
  "map_of [(''token'', PyStr ''0xabc''), (''amount'', PyInt 0)] ''amount'' = Some (PyInt 0) \<and>
   \<not> py_truthy (PyInt 0) \<and>
   profit_of (simulate_transaction ''1''
       (PyDict [(''token'', PyStr ''0xabc''), (''amount'', PyInt 0)])) =
     Some (float_literal 5 3)"
  using falsy_amount_is_absent
    [of "[(''token'', PyStr ''0xabc''), (''amount'', PyInt 0)]" "PyInt 0" "''1''"]
  by simp

subsection \<open>The reasons of a rejection\<close>

text \<open>
  C7, as the code has it. A rejected result carries the error "Simulation failed" when
  the success flag of the simulation is false, and the error "Profit is less than or
  equal to cost" when the flag is true and \<open>profit <= cost\<close>; every rejected result
  carries the simulation result as its details.
\<close>

theorem rejection_reasons:
  "(\<not> success sim \<longrightarrow> snd (execute_simulated sim) = Failed ''Simulation failed'' sim) \<and>
   (success sim \<and> fle (estimated_profit_eth sim) (estimated_cost_eth sim) \<longrightarrow>
      snd (execute_simulated sim) = Failed ''Profit is less than or equal to cost'' sim) \<and>
   (\<not> result_success (snd (execute_simulated sim)) \<longrightarrow>
      result_details (snd (execute_simulated sim)) = Some sim)"
  by (simp add: execute_simulated_def)

theorem rejection_reasons_witness:
  "\<not> success failed_simulation \<and>
   snd (execute_simulated failed_simulation) = Failed ''Simulation failed'' failed_simulation \<and>
   success break_even \<and>
   fle (estimated_profit_eth break_even) (estimated_cost_eth break_even) \<and>
   snd (execute_simulated break_even) =
     Failed ''Profit is less than or equal to cost'' break_even \<and>
   \<not> result_success (snd (execute_simulated break_even)) \<and>
   result_details (snd (execute_simulated break_even)) = Some break_even"
proof -
  have a: "\<not> success failed_simulation"
    by (simp add: failed_simulation_def)
  have b: "success break_even"
    by (simp add: break_even_def)
  have c: "fle (estimated_profit_eth break_even) (estimated_cost_eth break_even)"
    by (simp add: break_even_def float_eval)
  show ?thesis
    using a b c rejection_reasons [of failed_simulation] rejection_reasons [of break_even]
    by simp
qed

text \<open>
  C7 as stated fails on the text of the error: the break-even opportunity of chain 137
  is rejected with "Profit is less than or equal to cost", not with "profit does not
  exceed cost".
\<close>

theorem rejection_text_counterexample:
  "returned (execute_transaction ''137'' (PyDict [])) =
     Some (Failed ''Profit is less than or equal to cost'' break_even) \<and>
   map_option result_error (returned (execute_transaction ''137'' (PyDict []))) \<noteq>
     Some (Some ''profit does not exceed cost'')"
  by (simp add: tx_eval parse_eval float_eval break_even_def)

section \<open>Properties of the simulation endpoint\<close>




end
